theory Spec2Isabelle
  imports Main "HOL-Library.Sublist"
begin

unbundle bit_operations_syntax

section \<open>The Camera class of camera.py\<close>

text \<open>
  The module is Python 3. Exceptions are values: every method of the class becomes a
  function from the state before the call to a pair of an outcome (\<open>Return\<close> or
  \<open>Raise\<close>) and the state after it, because a method that raises keeps the writes it
  made before the raise.
\<close>

datatype error =
    RuntimeError string
  | ValueError
  | AttributeError
  | TypeError
  | ZeroDivisionError
  | IndexError
  | StopIteration
  | OverflowError
  | OSError

datatype 'a result = Return 'a | Raise error

text \<open>
  The arguments the setters inspect with \<open>isinstance\<close>: an int, a str, a tuple or
  None. (bool and float arguments are left out.)
\<close>

datatype pyobj = PInt int | PStr string | PTuple "pyobj list" | PNone

text \<open>The parameter ids of constants.py that the modelled methods use.\<close>

datatype param =
    PARAM_SER_SIZE
  | PARAM_PAR_SIZE
  | PARAM_BINNING_SER
  | PARAM_BINNING_PAR
  | PARAM_EXP_RES
  | PARAM_EXP_TIME

text \<open>The value of \<open>__stream_mode\<close> when it is not None: "live" or "acquisition".\<close>

datatype stream_mode = Live | Acquisition

text \<open>The methods of the pvc.StreamSaver object that the class calls.\<close>

datatype saver_op =
    StreamSaver
  | attach_camera string
  | setup_acquisition int int int int int int int int int string
  | setup_live int int int int int int int int
  | saver_start_acquisition
  | acquisition_status
  | saver_abort_acquisition
  | saver_join_acquisition

text \<open>
  The calls that leave the class: functions of the pvc module, and methods of a
  StreamSaver object (named by a number given at its creation).
\<close>

datatype call =
    close_camera int
  | set_param_call int param int
  | set_exp_modes int int
  | get_frame_call int int int int int int int int "int option"
  | uninit_pvcam
  | Saver nat saver_op

text \<open>
  What the class does not decide: which external calls raise (given the calls made so
  far), what the engine answers to a status query, what \<open>read_enum\<close> returns, whether
  \<open>os.mkdir\<close> fails, what \<open>int(a / b)\<close> is for ints too large for the float
  division to be exact (None: OverflowError), and the name-to-value dictionaries of
  constants.py (a dictionary is the list of its items, keys distinct).
\<close>

record env =
  raises :: "call list \<Rightarrow> call \<Rightarrow> error option"
  status :: "call list \<Rightarrow> bool"
  enums :: "param \<Rightarrow> (string \<times> int) list result"
  mkdir_raises :: "string \<Rightarrow> error option"
  float_truediv :: "int \<Rightarrow> int \<Rightarrow> int option"
  exp_modes :: "(string \<times> int) list"
  exp_out_modes :: "(string \<times> int) list"
  exp_resolutions :: "(string \<times> int) list"

text \<open>
  The attributes of a Camera object (\<open>_Camera__roi\<close> is \<open>Camera_roi\<close>, and so on; the
  two sub-mode attributes do not exist before \<open>open\<close>, which is None here), followed by
  the world outside it: the driver's current parameter values, the directories that
  exist, and the external calls issued so far, oldest first.
\<close>

record camera =
  Camera_name :: string
  Camera_handle :: int
  Camera_is_open :: bool
  Camera_mode :: "int option"
  Camera_exp_mode :: "int option"
  Camera_exp_out_mode :: "int option"
  Camera_exp_time :: int
  Camera_binning :: "int \<times> int"
  Camera_roi :: "(int \<times> int \<times> int \<times> int) option"
  Camera_shape :: "(int \<times> int) option"
  Camera_stream_saver :: "nat option"
  Camera_stream_mode :: "stream_mode option"
  pvc_cur :: "param \<Rightarrow> int result"
  dirs :: "string list"
  log :: "call list"

text \<open>\<open>Camera.__init__\<close>, in a world with the given driver values and directories.\<close>

definition Camera_init :: "string \<Rightarrow> (param \<Rightarrow> int result) \<Rightarrow> string list \<Rightarrow> camera" where
  "Camera_init name cur ds =
     \<lparr>Camera_name = name, Camera_handle = - 1, Camera_is_open = False,
      Camera_mode = None, Camera_exp_mode = None, Camera_exp_out_mode = None,
      Camera_exp_time = 0, Camera_binning = (1, 1), Camera_roi = None,
      Camera_shape = None, Camera_stream_saver = None, Camera_stream_mode = None,
      pvc_cur = cur, dirs = ds, log = []\<rparr>"

subsection \<open>The driver\<close>

text \<open>An external call: it is recorded, and raises when the environment says so.\<close>

definition ext_call :: "env \<Rightarrow> call \<Rightarrow> camera \<Rightarrow> unit result \<times> camera" where
  "ext_call E c s =
     (case raises E (log s) c of
        Some e \<Rightarrow> (Raise e, s\<lparr>log := log s @ [c]\<rparr>)
      | None \<Rightarrow> (Return (), s\<lparr>log := log s @ [c]\<rparr>))"

text \<open>
  \<open>get_param\<close> with ATTR_CURRENT reads the driver's value, or raises what the driver
  raises; a read changes nothing. \<open>set_param\<close> that does not raise makes the value
  current.
\<close>

definition get_param :: "param \<Rightarrow> camera \<Rightarrow> int result" where
  "get_param p s = pvc_cur s p"

definition set_param :: "env \<Rightarrow> param \<Rightarrow> int \<Rightarrow> camera \<Rightarrow> unit result \<times> camera" where
  "set_param E p v s =
     (case ext_call E (set_param_call (Camera_handle s) p v) s of
        (Raise e, s') \<Rightarrow> (Raise e, s')
      | (Return u, s') \<Rightarrow> (Return (), s'\<lparr>pvc_cur := (pvc_cur s')(p := Return v)\<rparr>))"

definition read_enum :: "env \<Rightarrow> param \<Rightarrow> (string \<times> int) list result" where
  "read_enum E p = enums E p"

definition sensor_size :: "camera \<Rightarrow> (int \<times> int) result" where
  "sensor_size s =
     (case get_param PARAM_SER_SIZE s of
        Raise e \<Rightarrow> Raise e
      | Return w \<Rightarrow>
          (case get_param PARAM_PAR_SIZE s of
             Raise e \<Rightarrow> Raise e
           | Return h \<Rightarrow> Return (w, h)))"

subsection \<open>Frame geometry\<close>

text \<open>
  \<open>int(a / b)\<close>: the true division of two ints gives the float nearest to their
  quotient, and \<open>int\<close> truncates that float toward zero; division by zero raises. For
  operands below \<open>2^53\<close> in absolute value the result is the exact quotient truncated
  toward zero. For larger operands the float decides: the result is the rounded
  quotient truncated, or OverflowError when the quotient is outside the float range;
  the environment gives it.
\<close>

definition trunc_div :: "int \<Rightarrow> int \<Rightarrow> int" where
  "trunc_div a b = sgn a * sgn b * (\<bar>a\<bar> div \<bar>b\<bar>)"

definition float_exact :: "int \<Rightarrow> bool" where
  "float_exact a = (\<bar>a\<bar> < 2 ^ 53)"

definition int_truediv :: "env \<Rightarrow> int \<Rightarrow> int \<Rightarrow> int result" where
  "int_truediv E a b =
     (if b = 0 then Raise ZeroDivisionError
      else if float_exact a \<and> float_exact b then Return (trunc_div a b)
      else
        (case float_truediv E a b of
           None \<Rightarrow> Raise OverflowError
         | Some q \<Rightarrow> Return q))"

definition bin_x :: "camera \<Rightarrow> int" where
  "bin_x s = fst (Camera_binning s)"

definition bin_y :: "camera \<Rightarrow> int" where
  "bin_y s = snd (Camera_binning s)"

definition calculate_reshape :: "env \<Rightarrow> camera \<Rightarrow> unit result \<times> camera" where
  "calculate_reshape E s =
     (case Camera_roi s of
        None \<Rightarrow> (Raise TypeError, s)
      | Some (x_start, x_end, y_start, y_end) \<Rightarrow>
          (let width = x_end - x_start; height = y_end - y_start in
           case int_truediv E width (bin_x s) of
             Raise e \<Rightarrow> (Raise e, s)
           | Return w \<Rightarrow>
               (case int_truediv E height (bin_y s) of
                  Raise e \<Rightarrow> (Raise e, s)
                | Return h \<Rightarrow> (Return (), s\<lparr>Camera_shape := Some (w, h)\<rparr>))))"

text \<open>\<open>v in range(lo, hi)\<close> for an int \<open>v\<close>.\<close>

definition in_range :: "int \<Rightarrow> int \<Rightarrow> int \<Rightarrow> bool" where
  "in_range v lo hi = (lo \<le> v \<and> v < hi)"

text \<open>
  The ROI setter. A tuple of four ints is the only value that passes the isinstance and
  len tests. The four bound tests each read \<open>sensor_size\<close> again; reads change
  nothing, so the size is read once here.
\<close>

definition roi_setter :: "env \<Rightarrow> pyobj \<Rightarrow> camera \<Rightarrow> unit result \<times> camera" where
  "roi_setter E val s =
     (case val of
        PTuple [PInt v0, PInt v1, PInt v2, PInt v3] \<Rightarrow>
          (case sensor_size s of
             Raise e \<Rightarrow> (Raise e, s)
           | Return (sw, sh) \<Rightarrow>
               if in_range v0 0 (sw + 1) \<and> in_range v1 0 (sw + 1) \<and>
                  in_range v2 0 (sh + 1) \<and> in_range v3 0 (sh + 1)
               then calculate_reshape E (s\<lparr>Camera_roi := Some (v0, v1, v2, v3)\<rparr>)
               else (Raise ValueError, s))
      | _ \<Rightarrow> (Raise ValueError, s))"

text \<open>
  The binning setters. \<open>value in d.values()\<close> holds for no str, tuple or None, the
  values being ints.
\<close>

definition in_values :: "pyobj \<Rightarrow> (string \<times> int) list \<Rightarrow> bool" where
  "in_values val d = (case val of PInt v \<Rightarrow> v \<in> set (map snd d) | _ \<Rightarrow> False)"

fun the_int :: "pyobj \<Rightarrow> int" where
  "the_int (PInt v) = v"
| "the_int x = 0"

definition bin_x_setter :: "env \<Rightarrow> pyobj \<Rightarrow> camera \<Rightarrow> unit result \<times> camera" where
  "bin_x_setter E val s =
     (case read_enum E PARAM_BINNING_SER of
        Raise e \<Rightarrow> (Raise e, s)
      | Return d \<Rightarrow>
          if in_values val d
          then calculate_reshape E (s\<lparr>Camera_binning := (the_int val, snd (Camera_binning s))\<rparr>)
          else (Raise ValueError, s))"

definition bin_y_setter :: "env \<Rightarrow> pyobj \<Rightarrow> camera \<Rightarrow> unit result \<times> camera" where
  "bin_y_setter E val s =
     (case read_enum E PARAM_BINNING_PAR of
        Raise e \<Rightarrow> (Raise e, s)
      | Return d \<Rightarrow>
          if in_values val d
          then calculate_reshape E (s\<lparr>Camera_binning := (fst (Camera_binning s), the_int val)\<rparr>)
          else
            (case read_enum E PARAM_BINNING_SER of
               Raise e \<Rightarrow> (Raise e, s)
             | Return d' \<Rightarrow> (Raise ValueError, s)))"

definition binning_setter :: "env \<Rightarrow> pyobj \<Rightarrow> camera \<Rightarrow> unit result \<times> camera" where
  "binning_setter E val s =
     (case val of
        PTuple vs \<Rightarrow>
          (case vs of
             [] \<Rightarrow> (Raise IndexError, s)
           | v0 # rest \<Rightarrow>
               (case bin_x_setter E v0 s of
                  (Raise e, s1) \<Rightarrow> (Raise e, s1)
                | (Return u, s1) \<Rightarrow>
                    (case rest of
                       [] \<Rightarrow> (Raise IndexError, s1)
                     | v1 # rest' \<Rightarrow> bin_y_setter E v1 s1)))
      | _ \<Rightarrow>
          (case read_enum E PARAM_BINNING_SER of
             Raise e \<Rightarrow> (Raise e, s)
           | Return d \<Rightarrow>
               if in_values val d
               then calculate_reshape E (s\<lparr>Camera_binning := (the_int val, the_int val)\<rparr>)
               else (Raise ValueError, s)))"


subsection \<open>Exposure modes\<close>

definition update_mode :: "env \<Rightarrow> camera \<Rightarrow> unit result \<times> camera" where
  "update_mode E s =
     (case Camera_exp_mode s of
        None \<Rightarrow> (Raise AttributeError, s)
      | Some em \<Rightarrow>
          (case Camera_exp_out_mode s of
             None \<Rightarrow> (Raise AttributeError, s)
           | Some eom \<Rightarrow>
               (let s1 = s\<lparr>Camera_mode := Some (em OR eom)\<rparr>
                in ext_call E (set_exp_modes (Camera_handle s1) (em OR eom)) s1)))"

text \<open>
  A str is looked up among the keys of the dictionary, anything else among its values.
\<close>

definition exp_mode_setter :: "env \<Rightarrow> pyobj \<Rightarrow> camera \<Rightarrow> unit result \<times> camera" where
  "exp_mode_setter E val s =
     (case val of
        PStr k \<Rightarrow>
          (case map_of (exp_modes E) k of
             None \<Rightarrow> (Raise ValueError, s)
           | Some v \<Rightarrow> update_mode E (s\<lparr>Camera_exp_mode := Some v\<rparr>))
      | _ \<Rightarrow>
          if in_values val (exp_modes E)
          then update_mode E (s\<lparr>Camera_exp_mode := Some (the_int val)\<rparr>)
          else (Raise ValueError, s))"

definition exp_out_mode_setter :: "env \<Rightarrow> pyobj \<Rightarrow> camera \<Rightarrow> unit result \<times> camera" where
  "exp_out_mode_setter E val s =
     (case val of
        PStr k \<Rightarrow>
          (case map_of (exp_out_modes E) k of
             None \<Rightarrow> (Raise ValueError, s)
           | Some v \<Rightarrow> update_mode E (s\<lparr>Camera_exp_out_mode := Some v\<rparr>))
      | _ \<Rightarrow>
          if in_values val (exp_out_modes E)
          then update_mode E (s\<lparr>Camera_exp_out_mode := Some (the_int val)\<rparr>)
          else (Raise ValueError, s))"

subsection \<open>The acquisition session\<close>

text \<open>
  A method call on \<open>self.__stream_saver\<close>; on None it is an AttributeError.
\<close>

definition saver_call :: "env \<Rightarrow> saver_op \<Rightarrow> camera \<Rightarrow> unit result \<times> camera" where
  "saver_call E op s =
     (case Camera_stream_saver s of
        None \<Rightarrow> (Raise AttributeError, s)
      | Some k \<Rightarrow> ext_call E (Saver k op) s)"

definition no_active :: error where
  "no_active = RuntimeError ''There are no active acquisitions!''"

definition already_active :: error where
  "already_active = RuntimeError ''There is already an active acquisition!''"

definition check_acquisition :: "env \<Rightarrow> camera \<Rightarrow> bool result \<times> camera" where
  "check_acquisition E s =
     (case Camera_stream_mode s of
        None \<Rightarrow> (Return False, s)
      | Some m \<Rightarrow>
          (case saver_call E acquisition_status s of
             (Raise e, s') \<Rightarrow> (Raise e, s')
           | (Return u, s') \<Rightarrow> (Return (status E (log s)), s')))"

definition abort_acquisition :: "env \<Rightarrow> camera \<Rightarrow> unit result \<times> camera" where
  "abort_acquisition E s =
     (case Camera_stream_mode s of
        None \<Rightarrow> (Raise no_active, s)
      | Some m \<Rightarrow> saver_call E saver_abort_acquisition s)"

definition join_acquisition :: "env \<Rightarrow> camera \<Rightarrow> unit result \<times> camera" where
  "join_acquisition E s =
     (case Camera_stream_mode s of
        None \<Rightarrow> (Raise no_active, s)
      | Some m \<Rightarrow>
          (case saver_call E saver_join_acquisition s of
             (Raise e, s') \<Rightarrow> (Raise e, s')
           | (Return u, s') \<Rightarrow> (Return (), s'\<lparr>Camera_stream_mode := None\<rparr>)))"

text \<open>\<open>except RuntimeError: pass\<close>.\<close>

fun pass_RuntimeError :: "unit result \<times> camera \<Rightarrow> unit result \<times> camera" where
  "pass_RuntimeError (Raise (RuntimeError m), s) = (Return (), s)"
| "pass_RuntimeError (r, s) = (r, s)"

definition stop_live :: "env \<Rightarrow> camera \<Rightarrow> unit result \<times> camera" where
  "stop_live E s =
     (if Camera_stream_mode s \<noteq> Some Live then (Return (), s)
      else pass_RuntimeError
        (case abort_acquisition E s of
           (Raise e, s1) \<Rightarrow> (Raise e, s1)
         | (Return u, s1) \<Rightarrow> join_acquisition E s1))"

text \<open>
  The three statements run when \<open>__stream_saver\<close> is None: a StreamSaver is created
  (its number is the count of calls before it), pvc is uninitialised, the camera is
  attached.
\<close>

definition new_stream_saver :: "env \<Rightarrow> camera \<Rightarrow> unit result \<times> camera" where
  "new_stream_saver E s =
     (case ext_call E (Saver (length (log s)) StreamSaver) s of
        (Raise e, s1) \<Rightarrow> (Raise e, s1)
      | (Return u, s1) \<Rightarrow>
          (case ext_call E uninit_pvcam (s1\<lparr>Camera_stream_saver := Some (length (log s))\<rparr>) of
             (Raise e, s2) \<Rightarrow> (Raise e, s2)
           | (Return u, s2) \<Rightarrow> saver_call E (attach_camera (Camera_name s2)) s2))"

text \<open>\<open>if not os.path.isdir(outdir): os.mkdir(outdir)\<close>.\<close>

definition ensure_dir :: "env \<Rightarrow> string \<Rightarrow> camera \<Rightarrow> unit result \<times> camera" where
  "ensure_dir E outdir s =
     (if outdir \<in> set (dirs s) then (Return (), s)
      else
        (case mkdir_raises E outdir of
           Some e \<Rightarrow> (Raise e, s)
         | None \<Rightarrow> (Return (), s\<lparr>dirs := dirs s @ [outdir]\<rparr>)))"

definition start_acquisition ::
  "env \<Rightarrow> int \<Rightarrow> string \<Rightarrow> camera \<Rightarrow> unit result \<times> camera" where
  "start_acquisition E num_frames outdir s =
     (case ensure_dir E outdir s of
        (Raise e, s0) \<Rightarrow> (Raise e, s0)
      | (Return u, s0) \<Rightarrow>
          (case Camera_roi s0 of
             None \<Rightarrow> (Raise TypeError, s0)
           | Some (x_start, x_end, y_start, y_end) \<Rightarrow>
               (case (if Camera_stream_saver s0 = None then new_stream_saver E s0
                      else if Camera_stream_mode s0 = Some Live then stop_live E s0
                      else if Camera_stream_mode s0 \<noteq> None then (Raise already_active, s0)
                      else (Return (), s0)) of
                  (Raise e, s1) \<Rightarrow> (Raise e, s1)
                | (Return u, s1) \<Rightarrow>
                    (case saver_call E
                            (setup_acquisition num_frames (Camera_exp_time s1) 0
                               x_start (x_end - 1) (bin_x s1)
                               y_start (y_end - 1) (bin_y s1) outdir) s1 of
                       (Raise e, s2) \<Rightarrow> (Raise e, s2)
                     | (Return u, s2) \<Rightarrow>
                         (case saver_call E saver_start_acquisition s2 of
                            (Raise e, s3) \<Rightarrow> (Raise e, s3)
                          | (Return u, s3) \<Rightarrow>
                              (Return (), s3\<lparr>Camera_stream_mode := Some Acquisition\<rparr>))))))"

definition start_live_acquisition :: "env \<Rightarrow> camera \<Rightarrow> unit result \<times> camera" where
  "start_live_acquisition E s =
     (case Camera_roi s of
        None \<Rightarrow> (Raise TypeError, s)
      | Some (x_start, x_end, y_start, y_end) \<Rightarrow>
          (case (if Camera_stream_saver s = None then new_stream_saver E s
                 else (Return (), s)) of
             (Raise e, s1) \<Rightarrow> (Raise e, s1)
           | (Return u, s1) \<Rightarrow>
               (case saver_call E
                       (setup_live (Camera_exp_time s1) 0
                          x_start (x_end - 1) (bin_x s1)
                          y_start (y_end - 1) (bin_y s1)) s1 of
                  (Raise e, s2) \<Rightarrow> (Raise e, s2)
                | (Return u, s2) \<Rightarrow>
                    (case saver_call E saver_start_acquisition s2 of
                       (Raise e, s3) \<Rightarrow> (Raise e, s3)
                     | (Return u, s3) \<Rightarrow>
                         (Return (), s3\<lparr>Camera_stream_mode := Some Live\<rparr>)))))"

definition start_live :: "env \<Rightarrow> camera \<Rightarrow> unit result \<times> camera" where
  "start_live E s =
     (case check_acquisition E s of
        (Raise e, s') \<Rightarrow> (Raise e, s')
      | (Return active, s') \<Rightarrow>
          if \<not> active then start_live_acquisition E s' else (Return (), s'))"

text \<open>\<open>close\<close>: whatever \<open>pvc.close_camera\<close> raises becomes a RuntimeError.\<close>

definition close :: "env \<Rightarrow> camera \<Rightarrow> unit result \<times> camera" where
  "close E s =
     (case ext_call E (close_camera (Camera_handle s)) s of
        (Raise e, s') \<Rightarrow> (Raise (RuntimeError ''Failed to close camera.''), s')
      | (Return u, s') \<Rightarrow>
          (Return (), s'\<lparr>Camera_handle := - 1, Camera_is_open := False,
                         Camera_stream_saver := None\<rparr>))"

subsection \<open>The variable-exposure sequence\<close>

text \<open>
  A frame is named by the number of calls issued before its capture. The reshape of the
  captured buffer is part of the capture call here: it raises when the driver's call is
  said to raise. \<open>np.empty\<close> raises ValueError on a negative dimension, \<open>time.sleep\<close> on
  a negative length.
\<close>

definition exp_res_setter :: "env \<Rightarrow> pyobj \<Rightarrow> camera \<Rightarrow> unit result \<times> camera" where
  "exp_res_setter E val s =
     (case val of
        PStr k \<Rightarrow>
          (case map_of (exp_resolutions E) k of
             None \<Rightarrow> (Raise ValueError, s)
           | Some v \<Rightarrow> set_param E PARAM_EXP_RES v s)
      | _ \<Rightarrow>
          if in_values val (exp_resolutions E)
          then set_param E PARAM_EXP_RES (the_int val) s
          else (Raise ValueError, s))"

definition vtm_exp_time_setter :: "env \<Rightarrow> int \<Rightarrow> camera \<Rightarrow> unit result \<times> camera" where
  "vtm_exp_time_setter E v s =
     (if in_range v 0 (2 ^ 16) then set_param E PARAM_EXP_TIME v s
      else (Raise ValueError, s))"

text \<open>\<open>self.vtm_exp_time = next(t)\<close>, returning what is left of the iterator.\<close>

definition set_next :: "env \<Rightarrow> int list \<Rightarrow> camera \<Rightarrow> int list result \<times> camera" where
  "set_next E t s =
     (case t of
        [] \<Rightarrow> (Raise StopIteration, s)
      | x # t' \<Rightarrow>
          (case vtm_exp_time_setter E x s of
             (Raise e, s') \<Rightarrow> (Raise e, s')
           | (Return u, s') \<Rightarrow> (Return t', s')))"

text \<open>The try statement of the loop body: a bare except restarts the iterator.\<close>

definition vtm_next :: "env \<Rightarrow> int list \<Rightarrow> int list \<Rightarrow> camera \<Rightarrow> int list result \<times> camera" where
  "vtm_next E time_list t s =
     (case set_next E t s of
        (Return t', s') \<Rightarrow> (Return t', s')
      | (Raise e, s') \<Rightarrow> set_next E time_list s')"

definition vtm_get_frame ::
  "env \<Rightarrow> int \<times> int \<times> int \<times> int \<Rightarrow> camera \<Rightarrow> nat result \<times> camera" where
  "vtm_get_frame E r s =
     (case r of (x_start, x_end, y_start, y_end) \<Rightarrow>
        (case ext_call E
                (get_frame_call (Camera_handle s) x_start (x_end - 1) (bin_x s)
                   y_start (y_end - 1) (bin_y s) (Camera_exp_time s) (Camera_mode s)) s of
           (Raise e, s') \<Rightarrow> (Raise e, s')
         | (Return u, s') \<Rightarrow> (Return (length (log s)), s')))"

definition sleep_interval :: "int option \<Rightarrow> unit result" where
  "sleep_interval interval =
     (case interval of
        None \<Rightarrow> Return ()
      | Some ms \<Rightarrow> if ms < 0 then Raise ValueError else Return ())"

fun vtm_loop ::
  "env \<Rightarrow> int list \<Rightarrow> int \<times> int \<times> int \<times> int \<Rightarrow> int option \<Rightarrow> nat \<Rightarrow> int list \<Rightarrow>
   nat list \<Rightarrow> camera \<Rightarrow> nat list result \<times> camera" where
  "vtm_loop E time_list r interval 0 t stack s = (Return stack, s)"
| "vtm_loop E time_list r interval (Suc n) t stack s =
     (case vtm_next E time_list t s of
        (Raise e, s1) \<Rightarrow> (Raise e, s1)
      | (Return t1, s1) \<Rightarrow>
          (case vtm_get_frame E r s1 of
             (Raise e, s2) \<Rightarrow> (Raise e, s2)
           | (Return f, s2) \<Rightarrow>
               (case sleep_interval interval of
                  Raise e \<Rightarrow> (Raise e, s2)
                | Return u \<Rightarrow> vtm_loop E time_list r interval n t1 (stack @ [f]) s2)))"

definition get_vtm_sequence ::
  "env \<Rightarrow> int list \<Rightarrow> pyobj \<Rightarrow> int \<Rightarrow> int option \<Rightarrow> camera \<Rightarrow> nat list result \<times> camera" where
  "get_vtm_sequence E time_list exp_res num_frames interval s =
     (if list_all (\<lambda>t. in_range t 0 (2 ^ 16)) time_list then
        (case Camera_roi s of
           None \<Rightarrow> (Raise TypeError, s)
         | Some r \<Rightarrow>
             (case get_param PARAM_EXP_RES s of
                Raise e \<Rightarrow> (Raise e, s)
              | Return old_res \<Rightarrow>
                  (case exp_res_setter E exp_res s of
                     (Raise e, s1) \<Rightarrow> (Raise e, s1)
                   | (Return u, s1) \<Rightarrow>
                       (case Camera_shape s1 of
                          None \<Rightarrow> (Raise TypeError, s1)
                        | Some (sw, sh) \<Rightarrow>
                            if num_frames < 0 \<or> sh < 0 \<or> sw < 0 then (Raise ValueError, s1)
                            else
                              (case vtm_loop E time_list r interval (nat num_frames)
                                      time_list [] s1 of
                                 (Raise e, s2) \<Rightarrow> (Raise e, s2)
                               | (Return stack, s2) \<Rightarrow>
                                   (case exp_res_setter E (PInt old_res) s2 of
                                      (Raise e, s3) \<Rightarrow> (Raise e, s3)
                                    | (Return u, s3) \<Rightarrow> (Return stack, s3)))))))
      else (Raise ValueError, s))"





definition is_frame_call :: "call \<Rightarrow> bool" where
  "is_frame_call c =
     (case c of
        set_param_call h p v \<Rightarrow> p = PARAM_EXP_TIME
      | get_frame_call h a b c d e f g m \<Rightarrow> True
      | _ \<Rightarrow> False)"


subsection \<open>A camera to run the methods on\<close>

text \<open>
  A driver that reports a 2048 by 2048 sensor and the binning factors 1 and 2, with no
  call raising, and a camera created on it. (On this sensor every division is exact,
  and the answer for large ints is never asked for.)
\<close>

definition demo_env :: env where
  "demo_env =
     \<lparr>raises = (\<lambda>l c. None), status = (\<lambda>l. True),
      enums = (\<lambda>p. Return [(''1'', 1), (''2'', 2)]),
      mkdir_raises = (\<lambda>d. None),
      float_truediv = (\<lambda>a b. None),
      exp_modes = [(''Timed'', 1792), (''Strobed'', 2048)],
      exp_out_modes = [(''First Row'', 0), (''All Rows'', 1)],
      exp_resolutions = [(''One Millisecond'', 0), (''One Microsecond'', 1)]\<rparr>"

definition demo_cur :: "param \<Rightarrow> int result" where
  "demo_cur p =
     (case p of
        PARAM_SER_SIZE \<Rightarrow> Return 2048
      | PARAM_PAR_SIZE \<Rightarrow> Return 2048
      | PARAM_EXP_RES \<Rightarrow> Return 0
      | PARAM_EXP_TIME \<Rightarrow> Return 0
      | _ \<Rightarrow> Raise AttributeError)"

definition demo_cam :: camera where
  "demo_cam = Camera_init ''cam0'' demo_cur []"

definition roi_of :: "int \<Rightarrow> int \<Rightarrow> int \<Rightarrow> int \<Rightarrow> pyobj" where
  "roi_of a b c d = PTuple [PInt a, PInt b, PInt c, PInt d]"

text \<open>The camera after \<open>roi = (0, 2048, 0, 2048)\<close>, as \<open>open\<close> sets it.\<close>

definition full_cam :: camera where
  "full_cam = snd (roi_setter demo_env (roi_of 0 2048 0 2048) demo_cam)"

text \<open>The same camera with the handle and the mode attributes that \<open>open\<close> sets.\<close>

definition open_cam :: camera where
  "open_cam =
     full_cam\<lparr>Camera_handle := 0, Camera_is_open := True,
              Camera_exp_mode := Some 1792, Camera_exp_out_mode := Some 0,
              Camera_mode := Some 1792\<rparr>"

text \<open>The same driver, except that every capture after the first raises.\<close>

definition fail_env :: env where
  "fail_env = demo_env\<lparr>raises := (\<lambda>l c.
      case c of
        get_frame_call h a b c d e f g m \<Rightarrow>
          if 2 < length l then Some (RuntimeError ''capture failed'') else None
      | _ \<Rightarrow> None)\<rparr>"



text \<open>That camera after \<open>start_acquisition(100, "/tmp/out")\<close>, and after \<open>start_live()\<close>.\<close>

definition seq_cam :: camera where
  "seq_cam = snd (start_acquisition demo_env 100 ''/tmp/out'' open_cam)"

definition live_cam :: camera where
  "live_cam = snd (start_live demo_env open_cam)"

text \<open>The stored shape is the one \<open>calculate_reshape\<close> derives from the stored roi and binning.\<close>

definition shape_consistent :: "env \<Rightarrow> camera \<Rightarrow> bool" where
  "shape_consistent E s =
     (case Camera_roi s of
        None \<Rightarrow> False
      | Some (x0, x1, y0, y1) \<Rightarrow>
          (case Camera_shape s of
             None \<Rightarrow> False
           | Some (w, h) \<Rightarrow>
               int_truediv E (x1 - x0) (bin_x s) = Return w \<and>
               int_truediv E (y1 - y0) (bin_y s) = Return h))"

section \<open>Frame geometry: shape, ROI and binning\<close>

lemmas demo_defs = demo_env_def demo_cur_def demo_cam_def Camera_init_def roi_of_def full_cam_def
  open_cam_def

lemmas geo_defs = roi_setter_def sensor_size_def get_param_def in_range_def
  calculate_reshape_def int_truediv_def float_exact_def trunc_div_def bin_x_def bin_y_def
  bin_x_setter_def bin_y_setter_def binning_setter_def read_enum_def in_values_def

lemma trunc_div_floor: "0 \<le> a \<Longrightarrow> 0 < b \<Longrightarrow> trunc_div a b = a div b"
  by (simp add: trunc_div_def sgn_if)

lemma int_truediv_exact:
  "float_exact a \<Longrightarrow> float_exact b \<Longrightarrow> int_truediv E a b = Return q \<Longrightarrow> q = trunc_div a b"
  by (auto simp: int_truediv_def split: if_splits)

lemma calculate_reshape_Return:
  assumes "calculate_reshape E s = (Return u, s')"
  shows "\<exists>x0 x1 y0 y1 w h. Camera_roi s = Some (x0, x1, y0, y1) \<and>
           int_truediv E (x1 - x0) (bin_x s) = Return w \<and>
           int_truediv E (y1 - y0) (bin_y s) = Return h \<and>
           s' = s\<lparr>Camera_shape := Some (w, h)\<rparr>"
  using assms
  by (auto simp: calculate_reshape_def Let_def
           split: option.splits prod.splits result.splits if_splits)

lemma calculate_reshape_Raise:
  assumes "calculate_reshape E s = (Raise e, s')"
  shows "s' = s \<and> e \<noteq> ValueError"
  using assms
  by (auto simp: calculate_reshape_def int_truediv_def Let_def
           split: option.splits prod.splits result.splits if_splits)

lemma calculate_reshape_consistent:
  "calculate_reshape E s = (Return u, s') \<Longrightarrow> shape_consistent E s'"
  by (drule calculate_reshape_Return) (auto simp: shape_consistent_def bin_x_def bin_y_def)

lemma roi_setter_consistent: "roi_setter E val s = (Return u, s') \<Longrightarrow> shape_consistent E s'"
  by (auto simp: roi_setter_def
           split: pyobj.splits list.splits result.splits prod.splits if_splits
           dest: calculate_reshape_consistent)

lemma bin_x_setter_consistent: "bin_x_setter E val s = (Return u, s') \<Longrightarrow> shape_consistent E s'"
  by (auto simp: bin_x_setter_def split: result.splits if_splits
           dest: calculate_reshape_consistent)

lemma bin_y_setter_consistent: "bin_y_setter E val s = (Return u, s') \<Longrightarrow> shape_consistent E s'"
  by (auto simp: bin_y_setter_def split: result.splits if_splits
           dest: calculate_reshape_consistent)

lemma binning_setter_consistent: "binning_setter E val s = (Return u, s') \<Longrightarrow> shape_consistent E s'"
  by (auto simp: binning_setter_def
           split: pyobj.splits list.splits result.splits prod.splits if_splits
           dest: calculate_reshape_consistent bin_y_setter_consistent)

lemma bin_x_setter_ValueError: "bin_x_setter E val s = (Raise ValueError, s') \<Longrightarrow> s' = s"
  by (auto simp: bin_x_setter_def split: result.splits if_splits
           dest: calculate_reshape_Raise)

lemma bin_y_setter_ValueError: "bin_y_setter E val s = (Raise ValueError, s') \<Longrightarrow> s' = s"
  by (auto simp: bin_y_setter_def split: result.splits if_splits
           dest: calculate_reshape_Raise)

text \<open>
  C1 (as amended). After a ROI or binning setter that returns, the stored shape is the
  pair that \<open>int((x_end - x_start) / bin_x)\<close> and \<open>int((y_end - y_start) / bin_y)\<close> give
  for the stored roi and binning, so it is never stale. On an axis whose extent and
  factor are below 2^53 in absolute value that is their quotient truncated toward
  zero, which is the floor when moreover the extent is not negative and the factor is
  positive.
\<close>

theorem shape_after_setter:
  assumes "roi_setter E val s = (Return u, s') \<or> bin_x_setter E val s = (Return u, s') \<or>
           bin_y_setter E val s = (Return u, s') \<or> binning_setter E val s = (Return u, s')"
  shows "\<exists>x0 x1 y0 y1 w h.
           Camera_roi s' = Some (x0, x1, y0, y1) \<and> Camera_shape s' = Some (w, h) \<and>
           int_truediv E (x1 - x0) (bin_x s') = Return w \<and>
           int_truediv E (y1 - y0) (bin_y s') = Return h \<and>
           (float_exact (x1 - x0) \<and> float_exact (bin_x s') \<longrightarrow>
              w = trunc_div (x1 - x0) (bin_x s')) \<and>
           (float_exact (y1 - y0) \<and> float_exact (bin_y s') \<longrightarrow>
              h = trunc_div (y1 - y0) (bin_y s')) \<and>
           (float_exact (x1 - x0) \<and> float_exact (bin_x s') \<and> x0 \<le> x1 \<and> 0 < bin_x s' \<longrightarrow>
              w = (x1 - x0) div bin_x s') \<and>
           (float_exact (y1 - y0) \<and> float_exact (bin_y s') \<and> y0 \<le> y1 \<and> 0 < bin_y s' \<longrightarrow>
              h = (y1 - y0) div bin_y s')"
proof -
  from assms have "shape_consistent E s'"
    by (auto dest: roi_setter_consistent bin_x_setter_consistent bin_y_setter_consistent
                   binning_setter_consistent)
  then obtain x0 x1 y0 y1 w h where
    r: "Camera_roi s' = Some (x0, x1, y0, y1)" and sh: "Camera_shape s' = Some (w, h)"
    and dx: "int_truediv E (x1 - x0) (bin_x s') = Return w"
    and dy: "int_truediv E (y1 - y0) (bin_y s') = Return h"
    by (auto simp: shape_consistent_def split: option.splits)
  have tx: "w = trunc_div (x1 - x0) (bin_x s')"
    if "float_exact (x1 - x0) \<and> float_exact (bin_x s')"
    using that dx by (auto dest: int_truediv_exact)
  have ty: "h = trunc_div (y1 - y0) (bin_y s')"
    if "float_exact (y1 - y0) \<and> float_exact (bin_y s')"
    using that dy by (auto dest: int_truediv_exact)
  have fx: "w = (x1 - x0) div bin_x s'"
    if "float_exact (x1 - x0) \<and> float_exact (bin_x s') \<and> x0 \<le> x1 \<and> 0 < bin_x s'"
    using that tx by (simp add: trunc_div_floor)
  have fy: "h = (y1 - y0) div bin_y s'"
    if "float_exact (y1 - y0) \<and> float_exact (bin_y s') \<and> y0 \<le> y1 \<and> 0 < bin_y s'"
    using that ty by (simp add: trunc_div_floor)
  from r sh dx dy tx ty fx fy show ?thesis by blast
qed

theorem shape_after_setter_witness:
  "binning_setter demo_env (PInt 2) full_cam
     = (Return (), demo_cam\<lparr>Camera_roi := Some (0, 2048, 0, 2048), Camera_binning := (2, 2),
                             Camera_shape := Some (1024, 1024)\<rparr>)
   \<and> Camera_shape (snd (binning_setter demo_env (PInt 2) full_cam))
       = Some ((2048 - 0) div 2, (2048 - 0) div 2)"
proof -
  have h: "binning_setter demo_env (PInt 2) full_cam
     = (Return (), demo_cam\<lparr>Camera_roi := Some (0, 2048, 0, 2048), Camera_binning := (2, 2),
                             Camera_shape := Some (1024, 1024)\<rparr>)"
    by (simp add: demo_defs geo_defs)
  have e: "float_exact 2048 \<and> float_exact 2"
    by (simp add: float_exact_def)
  from shape_after_setter [where val = "PInt 2" and E = demo_env and s = full_cam,
      OF disjI2 [OF disjI2 [OF disjI2 [OF h]]]] e
  have "Camera_shape (snd (binning_setter demo_env (PInt 2) full_cam))
          = Some ((2048 - 0) div 2, (2048 - 0) div 2)"
    by (auto simp: h bin_x_def bin_y_def)
  with h show ?thesis by simp
qed

text \<open>
  C1 as stated fails where an extent is negative: with roi (3, 0, 0, 0), which the ROI
  setter accepts, setting bin_x to 2 stores the shape (-1, 0), and the floor of -3 / 2
  is -2.
\<close>

theorem shape_floor_counterexample:
  "fst (bin_x_setter demo_env (PInt 2) (snd (roi_setter demo_env (roi_of 3 0 0 0) demo_cam)))
       = Return ()
   \<and> Camera_roi (snd (bin_x_setter demo_env (PInt 2)
                        (snd (roi_setter demo_env (roi_of 3 0 0 0) demo_cam))))
       = Some (3, 0, 0, 0)
   \<and> Camera_binning (snd (bin_x_setter demo_env (PInt 2)
                            (snd (roi_setter demo_env (roi_of 3 0 0 0) demo_cam))))
       = (2, 1)
   \<and> Camera_shape (snd (bin_x_setter demo_env (PInt 2)
                          (snd (roi_setter demo_env (roi_of 3 0 0 0) demo_cam))))
       = Some (- 1, 0)
   \<and> Some (- 1, 0) \<noteq> Some ((0 - 3) div (2::int), (0 - 0) div (1::int))"
  by (simp add: demo_defs geo_defs)

text \<open>
  C3. With the sensor size readable as (sw, sh), the ROI setter given a tuple of four
  ints of which one is below 0 or above its bound (sw for the x components, sh for the
  y components) raises ValueError and leaves the whole state, so the stored roi and
  shape, as it was.
\<close>

theorem roi_setter_out_of_bounds:
  assumes "sensor_size s = Return (sw, sh)"
    and "v0 < 0 \<or> sw < v0 \<or> v1 < 0 \<or> sw < v1 \<or> v2 < 0 \<or> sh < v2 \<or> v3 < 0 \<or> sh < v3"
  shows "roi_setter E (PTuple [PInt v0, PInt v1, PInt v2, PInt v3]) s = (Raise ValueError, s)
         \<and> Camera_roi (snd (roi_setter E (PTuple [PInt v0, PInt v1, PInt v2, PInt v3]) s)) = Camera_roi s
         \<and> Camera_shape (snd (roi_setter E (PTuple [PInt v0, PInt v1, PInt v2, PInt v3]) s)) = Camera_shape s"
proof -
  from assms have "roi_setter E (PTuple [PInt v0, PInt v1, PInt v2, PInt v3]) s = (Raise ValueError, s)"
    by (auto simp: roi_setter_def in_range_def)
  then show ?thesis by simp
qed

theorem roi_setter_out_of_bounds_witness:
  "sensor_size full_cam = Return (2048, 2048)
   \<and> roi_setter demo_env (PTuple [PInt 0, PInt 2049, PInt 0, PInt 100]) full_cam = (Raise ValueError, full_cam)
   \<and> Camera_roi full_cam = Some (0, 2048, 0, 2048)
   \<and> Camera_shape full_cam = Some (2048, 2048)"
proof -
  have h: "sensor_size full_cam = Return (2048, 2048)"
    by (simp add: demo_defs geo_defs)
  have g: "Camera_roi full_cam = Some (0, 2048, 0, 2048) \<and> Camera_shape full_cam = Some (2048, 2048)"
    by (simp add: demo_defs geo_defs)
  from roi_setter_out_of_bounds [OF h, of 0 2049 0 100 demo_env] g h
  show ?thesis by simp
qed

text \<open>
  C10. With the sensor size readable as (sw, sh), both sizes below 2^53, and each
  binning factor nonzero and below 2^53 in absolute value (so that the divisions are
  exact), the
  ROI setter given four ints within the bounds returns, whatever their order, and
  stores the tuple and the shape of the truncated quotients of the signed extents: a
  component is 0 for equal endpoints and, under a positive factor, the negated quotient
  of the reversed extent (so at most 0, and negative once the reversed extent reaches
  the factor) for reversed ones.
\<close>

theorem roi_setter_in_bounds:
  assumes "sensor_size s = Return (sw, sh)"
    and "0 \<le> v0 \<and> v0 \<le> sw \<and> 0 \<le> v1 \<and> v1 \<le> sw \<and> 0 \<le> v2 \<and> v2 \<le> sh \<and> 0 \<le> v3 \<and> v3 \<le> sh"
    and "bin_x s \<noteq> 0" and "bin_y s \<noteq> 0"
    and "sw < 2 ^ 53" and "sh < 2 ^ 53"
    and "float_exact (bin_x s)" and "float_exact (bin_y s)"
  shows "roi_setter E (PTuple [PInt v0, PInt v1, PInt v2, PInt v3]) s =
           (Return (), s\<lparr>Camera_roi := Some (v0, v1, v2, v3),
                         Camera_shape := Some (trunc_div (v1 - v0) (bin_x s),
                                               trunc_div (v3 - v2) (bin_y s))\<rparr>)
         \<and> (v1 = v0 \<longrightarrow> trunc_div (v1 - v0) (bin_x s) = 0)
         \<and> (v3 = v2 \<longrightarrow> trunc_div (v3 - v2) (bin_y s) = 0)
         \<and> (v1 < v0 \<and> 0 < bin_x s \<longrightarrow>
              trunc_div (v1 - v0) (bin_x s) = - ((v0 - v1) div bin_x s)
              \<and> trunc_div (v1 - v0) (bin_x s) \<le> 0
              \<and> (bin_x s \<le> v0 - v1 \<longrightarrow> trunc_div (v1 - v0) (bin_x s) < 0))
         \<and> (v3 < v2 \<and> 0 < bin_y s \<longrightarrow>
              trunc_div (v3 - v2) (bin_y s) = - ((v2 - v3) div bin_y s)
              \<and> trunc_div (v3 - v2) (bin_y s) \<le> 0
              \<and> (bin_y s \<le> v2 - v3 \<longrightarrow> trunc_div (v3 - v2) (bin_y s) < 0))"
proof -
  have neg: "trunc_div (a - b) c = - ((b - a) div c) \<and> trunc_div (a - b) c \<le> 0
             \<and> (c \<le> b - a \<longrightarrow> trunc_div (a - b) c < 0)"
    if "a < b" and "0 < c" for a b c :: int
  proof -
    from that have e: "trunc_div (a - b) c = - ((b - a) div c)"
      by (simp add: trunc_div_def sgn_if)
    from that have p: "0 \<le> (b - a) div c"
      by (simp add: pos_imp_zdiv_nonneg_iff)
    have q: "0 < (b - a) div c" if "c \<le> b - a"
      using that \<open>0 < c\<close> by (simp add: pos_imp_zdiv_pos_iff)
    from e p q show ?thesis by auto
  qed
  have run: "roi_setter E (PTuple [PInt v0, PInt v1, PInt v2, PInt v3]) s =
           (Return (), s\<lparr>Camera_roi := Some (v0, v1, v2, v3),
                         Camera_shape := Some (trunc_div (v1 - v0) (bin_x s),
                                               trunc_div (v3 - v2) (bin_y s))\<rparr>)"
  proof -
    from assms have ex: "float_exact (v1 - v0)" and ey: "float_exact (v3 - v2)"
      by (simp_all add: float_exact_def abs_less_iff)
    have dx: "int_truediv E (v1 - v0) (bin_x s) = Return (trunc_div (v1 - v0) (bin_x s))"
      using assms ex by (simp add: int_truediv_def)
    have dy: "int_truediv E (v3 - v2) (bin_y s) = Return (trunc_div (v3 - v2) (bin_y s))"
      using assms ey by (simp add: int_truediv_def)
    from assms(1,2) dx dy show ?thesis
      by (simp add: roi_setter_def in_range_def calculate_reshape_def bin_x_def bin_y_def)
  qed
  have zx: "v1 = v0 \<longrightarrow> trunc_div (v1 - v0) (bin_x s) = 0"
    by (simp add: trunc_div_def)
  have zy: "v3 = v2 \<longrightarrow> trunc_div (v3 - v2) (bin_y s) = 0"
    by (simp add: trunc_div_def)
  have nx: "v1 < v0 \<and> 0 < bin_x s \<longrightarrow>
              trunc_div (v1 - v0) (bin_x s) = - ((v0 - v1) div bin_x s)
              \<and> trunc_div (v1 - v0) (bin_x s) \<le> 0
              \<and> (bin_x s \<le> v0 - v1 \<longrightarrow> trunc_div (v1 - v0) (bin_x s) < 0)"
    using neg [of v1 v0 "bin_x s"] by blast
  have ny: "v3 < v2 \<and> 0 < bin_y s \<longrightarrow>
              trunc_div (v3 - v2) (bin_y s) = - ((v2 - v3) div bin_y s)
              \<and> trunc_div (v3 - v2) (bin_y s) \<le> 0
              \<and> (bin_y s \<le> v2 - v3 \<longrightarrow> trunc_div (v3 - v2) (bin_y s) < 0)"
    using neg [of v3 v2 "bin_y s"] by blast
  from run zx zy nx ny show ?thesis by blast
qed

theorem roi_setter_in_bounds_witness:
  "sensor_size full_cam = Return (2048, 2048)
   \<and> bin_x full_cam = 1 \<and> bin_y full_cam = 1
   \<and> roi_setter demo_env (PTuple [PInt 5, PInt 2, PInt 7, PInt 7]) full_cam =
       (Return (), full_cam\<lparr>Camera_roi := Some (5, 2, 7, 7), Camera_shape := Some (- 3, 0)\<rparr>)"
proof -
  have h: "sensor_size full_cam = Return (2048, 2048)"
    by (simp add: demo_defs geo_defs)
  have b: "bin_x full_cam = 1 \<and> bin_y full_cam = 1"
    by (simp add: demo_defs geo_defs)
  have t: "trunc_div (2 - 5) 1 = - 3 \<and> trunc_div (7 - 7) 1 = 0"
    by (simp add: trunc_div_def)
  have e: "(2048 :: int) < 2 ^ 53 \<and> float_exact 1"
    by (simp add: float_exact_def)
  from roi_setter_in_bounds [OF h, of 5 2 7 7 demo_env] b h t e
  show ?thesis by simp
qed

text \<open>
  C9 (as amended). A per-axis binning setter that raises ValueError leaves the state as
  it was, and so does the joint setter given a single value. Given a tuple, the joint
  setter runs the x setter on the first component and then the y setter on the second:
  when it raises ValueError, either the x setter raised it and the state is as it was,
  or the x setter had returned and the state is the one it left, with the new bin_x and
  the shape recomputed.
\<close>

theorem binning_setter_invalid:
  "(bin_x_setter E val s = (Raise ValueError, s') \<longrightarrow> s' = s)
   \<and> (bin_y_setter E val s = (Raise ValueError, s') \<longrightarrow> s' = s)
   \<and> (binning_setter E val s = (Raise ValueError, s') \<longrightarrow>
        (case val of
           PTuple (v0 # v1 # rest) \<Rightarrow>
             (bin_x_setter E v0 s = (Raise ValueError, s) \<and> s' = s)
             \<or> (bin_x_setter E v0 s = (Return (), s')
                 \<and> bin_y_setter E v1 s' = (Raise ValueError, s'))
         | _ \<Rightarrow> s' = s))"
proof (intro conjI impI)
  assume "bin_x_setter E val s = (Raise ValueError, s')"
  then show "s' = s" by (rule bin_x_setter_ValueError)
next
  assume "bin_y_setter E val s = (Raise ValueError, s')"
  then show "s' = s" by (rule bin_y_setter_ValueError)
next
  assume a: "binning_setter E val s = (Raise ValueError, s')"
  show "case val of
           PTuple (v0 # v1 # rest) \<Rightarrow>
             (bin_x_setter E v0 s = (Raise ValueError, s) \<and> s' = s)
             \<or> (bin_x_setter E v0 s = (Return (), s')
                 \<and> bin_y_setter E v1 s' = (Raise ValueError, s'))
         | _ \<Rightarrow> s' = s"
  proof (cases val)
    case (PTuple vs)
    show ?thesis
    proof (cases vs)
      case Nil
      with a PTuple show ?thesis by (simp add: binning_setter_def)
    next
      case (Cons v0 rest)
      show ?thesis
      proof (cases rest)
        case Nil
        with a PTuple Cons show ?thesis
          by (auto simp: binning_setter_def split: prod.splits result.splits
                   dest: bin_x_setter_ValueError)
      next
        case (Cons v1 rest')
        with a PTuple \<open>vs = v0 # rest\<close> show ?thesis
          by (auto simp: binning_setter_def split: prod.splits result.splits
                   dest: bin_x_setter_ValueError bin_y_setter_ValueError)
      qed
    qed
  next
    case (PInt v)
    with a show ?thesis
      by (auto simp: binning_setter_def split: result.splits if_splits
               dest: calculate_reshape_Raise)
  next
    case (PStr x)
    with a show ?thesis
      by (auto simp: binning_setter_def split: result.splits if_splits
               dest: calculate_reshape_Raise)
  next
    case PNone
    with a show ?thesis
      by (auto simp: binning_setter_def split: result.splits if_splits
               dest: calculate_reshape_Raise)
  qed
qed

theorem binning_setter_invalid_witness:
  "bin_x_setter demo_env (PInt 3) full_cam = (Raise ValueError, full_cam)
   \<and> bin_y_setter demo_env (PInt 3) full_cam = (Raise ValueError, full_cam)
   \<and> binning_setter demo_env (PInt 3) full_cam = (Raise ValueError, full_cam)
   \<and> binning_setter demo_env (PTuple [PInt 3, PInt 2]) full_cam = (Raise ValueError, full_cam)"
proof -
  have h: "bin_x_setter demo_env (PInt 3) full_cam = (Raise ValueError, full_cam)
     \<and> bin_y_setter demo_env (PInt 3) full_cam = (Raise ValueError, full_cam)
     \<and> binning_setter demo_env (PInt 3) full_cam = (Raise ValueError, full_cam)"
    by (simp add: demo_defs geo_defs)
  have g: "binning_setter demo_env (PTuple [PInt 3, PInt 2]) full_cam
             = (Raise ValueError, snd (binning_setter demo_env (PTuple [PInt 3, PInt 2]) full_cam))"
    by (simp add: demo_defs geo_defs)
  have n: "bin_x_setter demo_env (PInt 3) full_cam \<noteq> (Return (), s')" for s'
    using h by simp
  from binning_setter_invalid [of demo_env "PTuple [PInt 3, PInt 2]" full_cam
      "snd (binning_setter demo_env (PTuple [PInt 3, PInt 2]) full_cam)"] g n
  have "snd (binning_setter demo_env (PTuple [PInt 3, PInt 2]) full_cam) = full_cam"
    by simp
  with g h show ?thesis by simp
qed

text \<open>
  C9 as stated fails for the tuple form: on the full-frame camera, binning (1, 1),
  \<open>binning = (2, 3)\<close> raises ValueError for the 3, after bin_x has become 2 and the shape
  (1024, 2048).
\<close>

theorem binning_tuple_counterexample:
  "fst (binning_setter demo_env (PTuple [PInt 2, PInt 3]) full_cam) = Raise ValueError
   \<and> Camera_binning full_cam = (1, 1)
   \<and> Camera_shape full_cam = Some (2048, 2048)
   \<and> Camera_binning (snd (binning_setter demo_env (PTuple [PInt 2, PInt 3]) full_cam)) = (2, 1)
   \<and> Camera_shape (snd (binning_setter demo_env (PTuple [PInt 2, PInt 3]) full_cam))
       = Some (1024, 2048)"
  by (simp add: demo_defs geo_defs)


section \<open>The composed device mode\<close>

lemmas mode_defs = exp_mode_setter_def exp_out_mode_setter_def update_mode_def ext_call_def

lemma update_mode_Return:
  assumes "update_mode E s = (Return u, s')"
  shows "\<exists>em eom. Camera_exp_mode s = Some em \<and> Camera_exp_out_mode s = Some eom \<and>
           s' = s\<lparr>Camera_mode := Some (em OR eom),
                   log := log s @ [set_exp_modes (Camera_handle s) (em OR eom)]\<rparr>"
  using assms
  by (auto simp: update_mode_def ext_call_def Let_def split: option.splits)

text \<open>
  C2. After an exposure-mode or expose-out-mode setter that returns, whether it was
  given a name or a value, the stored mode is the bitwise or of the two stored
  sub-modes, and the call just issued to the driver is \<open>set_exp_modes\<close> with that value.
\<close>

theorem mode_after_setter:
  assumes "exp_mode_setter E val s = (Return u, s') \<or>
           exp_out_mode_setter E val s = (Return u, s')"
  shows "\<exists>em eom. Camera_exp_mode s' = Some em \<and> Camera_exp_out_mode s' = Some eom \<and>
           Camera_mode s' = Some (em OR eom) \<and>
           log s' = log s @ [set_exp_modes (Camera_handle s') (em OR eom)]"
  using assms
  by (auto simp: exp_mode_setter_def exp_out_mode_setter_def
           split: pyobj.splits option.splits if_splits dest!: update_mode_Return)

theorem mode_after_setter_witness:
  "exp_out_mode_setter demo_env (PStr ''All Rows'') open_cam
     = (Return (), open_cam\<lparr>Camera_exp_out_mode := Some 1, Camera_mode := Some 1793,
                             log := [set_exp_modes 0 1793]\<rparr>)
   \<and> exp_mode_setter demo_env (PInt 2048) open_cam
     = (Return (), open_cam\<lparr>Camera_exp_mode := Some 2048, Camera_mode := Some 2048,
                             log := [set_exp_modes 0 2048]\<rparr>)
   \<and> (1792 :: int) OR 1 = 1793 \<and> (2048 :: int) OR 0 = 2048"
proof -
  have h: "exp_out_mode_setter demo_env (PStr ''All Rows'') open_cam
     = (Return (), open_cam\<lparr>Camera_exp_out_mode := Some 1, Camera_mode := Some 1793,
                             log := [set_exp_modes 0 1793]\<rparr>)"
    by (simp add: demo_defs geo_defs mode_defs)
  have g: "exp_mode_setter demo_env (PInt 2048) open_cam
     = (Return (), open_cam\<lparr>Camera_exp_mode := Some 2048, Camera_mode := Some 2048,
                             log := [set_exp_modes 0 2048]\<rparr>)"
    by (simp add: demo_defs geo_defs mode_defs)
  from mode_after_setter [OF disjI2 [OF h]] mode_after_setter [OF disjI1 [OF g]]
  show ?thesis using h g by simp
qed


section \<open>The acquisition session\<close>

lemmas acq_defs = start_acquisition_def start_live_def start_live_acquisition_def
  check_acquisition_def saver_call_def new_stream_saver_def ensure_dir_def stop_live_def
  abort_acquisition_def join_acquisition_def close_def already_active_def no_active_def

lemma seq_cam_eq:
  "seq_cam = open_cam\<lparr>Camera_stream_saver := Some 0, Camera_stream_mode := Some Acquisition,
     dirs := [''/tmp/out''],
     log := [Saver 0 StreamSaver, uninit_pvcam, Saver 0 (attach_camera ''cam0''),
             Saver 0 (setup_acquisition 100 0 0 0 2047 1 0 2047 1 ''/tmp/out''),
             Saver 0 saver_start_acquisition]\<rparr>"
  by (simp add: seq_cam_def demo_defs geo_defs acq_defs ext_call_def)

lemma live_cam_eq:
  "live_cam = open_cam\<lparr>Camera_stream_saver := Some 0, Camera_stream_mode := Some Live,
     log := [Saver 0 StreamSaver, uninit_pvcam, Saver 0 (attach_camera ''cam0''),
             Saver 0 (setup_live 0 0 0 2047 1 0 2047 1), Saver 0 saver_start_acquisition]\<rparr>"
  by (simp add: live_cam_def demo_defs geo_defs acq_defs ext_call_def)

lemma ensure_dir_ok:
  "outdir \<in> set (dirs s) \<or> mkdir_raises E outdir = None \<Longrightarrow>
   ensure_dir E outdir s = (Return (), if outdir \<in> set (dirs s) then s else s\<lparr>dirs := dirs s @ [outdir]\<rparr>)"
  by (auto simp: ensure_dir_def)

text \<open>
  C4 (as amended). \<open>start_acquisition\<close> on a camera with a ROI. If the output directory
  is missing and cannot be made, the error of \<open>os.mkdir\<close> is raised before the state is
  looked at, and nothing changes. Otherwise:
  \<^item> in state "acquisition" with an engine attached, it raises the RuntimeError "There
    is already an active acquisition!", with no call issued and the engine and state
    tag as they were;
  \<^item> in state "live" with an engine attached that accepts abort and join, it issues
    abort, join and setup_acquisition in that order, and when it returns it has issued
    start_acquisition after them and the state is "acquisition";
  \<^item> in state "live" with an engine whose abort raises a RuntimeError, that error is
    passed over and no join is issued: setup_acquisition follows the abort;
  \<^item> in the idle state with an engine attached, when it returns it has issued
    setup_acquisition and start_acquisition and the state is "acquisition";
  \<^item> with no engine attached, whatever the state tag (None before the first session,
    or the tag that \<open>close\<close> left), when it returns it has created and attached a new
    engine, issued setup_acquisition and start_acquisition to it, and the state is
    "acquisition";
  \<^item> it returns if no call raises, except in the first case.
\<close>

theorem start_acquisition_by_state:
  assumes roi: "Camera_roi s = Some (x0, x1, y0, y1)"
    and run: "start_acquisition E n outdir s = (r, s')"
  shows "(outdir \<notin> set (dirs s) \<and> mkdir_raises E outdir = Some e \<longrightarrow> r = Raise e \<and> s' = s)
       \<and> (outdir \<in> set (dirs s) \<or> mkdir_raises E outdir = None \<longrightarrow>
          (Camera_stream_mode s = Some Acquisition \<and> Camera_stream_saver s = Some k \<longrightarrow>
           r = Raise already_active \<and> log s' = log s \<and>
           Camera_stream_saver s' = Some k \<and> Camera_stream_mode s' = Some Acquisition)
        \<and> (Camera_stream_mode s = Some Live \<and> Camera_stream_saver s = Some k \<and>
           raises E (log s) (Saver k saver_abort_acquisition) = None \<and>
           raises E (log s @ [Saver k saver_abort_acquisition])
             (Saver k saver_join_acquisition) = None \<longrightarrow>
           prefix (log s @ [Saver k saver_abort_acquisition, Saver k saver_join_acquisition,
                            Saver k (setup_acquisition n (Camera_exp_time s) 0 x0 (x1 - 1) (bin_x s)
                 y0 (y1 - 1) (bin_y s) outdir)]) (log s') \<and>
           (r = Return () \<longrightarrow>
              log s' = log s @ [Saver k saver_abort_acquisition, Saver k saver_join_acquisition,
                                Saver k (setup_acquisition n (Camera_exp_time s) 0 x0 (x1 - 1) (bin_x s)
                 y0 (y1 - 1) (bin_y s) outdir), Saver k saver_start_acquisition] \<and>
              Camera_stream_mode s' = Some Acquisition))
        \<and> (Camera_stream_mode s = Some Live \<and> Camera_stream_saver s = Some k \<and>
           raises E (log s) (Saver k saver_abort_acquisition) = Some (RuntimeError msg) \<longrightarrow>
           prefix (log s @ [Saver k saver_abort_acquisition, Saver k (setup_acquisition n (Camera_exp_time s) 0 x0 (x1 - 1) (bin_x s)
                 y0 (y1 - 1) (bin_y s) outdir)]) (log s') \<and>
           (r = Return () \<longrightarrow>
              log s' = log s @ [Saver k saver_abort_acquisition, Saver k (setup_acquisition n (Camera_exp_time s) 0 x0 (x1 - 1) (bin_x s)
                 y0 (y1 - 1) (bin_y s) outdir),
                                Saver k saver_start_acquisition] \<and>
              Camera_stream_mode s' = Some Acquisition))
        \<and> (Camera_stream_mode s = None \<and> Camera_stream_saver s = Some k \<longrightarrow>
           (r = Return () \<longrightarrow>
              Camera_stream_mode s' = Some Acquisition \<and>
              log s' = log s @ [Saver k (setup_acquisition n (Camera_exp_time s) 0 x0 (x1 - 1) (bin_x s)
                 y0 (y1 - 1) (bin_y s) outdir), Saver k saver_start_acquisition]))
        \<and> (Camera_stream_saver s = None \<longrightarrow>
           (r = Return () \<longrightarrow>
              Camera_stream_mode s' = Some Acquisition \<and>
              Camera_stream_saver s' = Some (length (log s)) \<and>
              log s' = log s @
                [Saver (length (log s)) StreamSaver, uninit_pvcam,
                 Saver (length (log s)) (attach_camera (Camera_name s)),
                 Saver (length (log s)) (setup_acquisition n (Camera_exp_time s) 0 x0 (x1 - 1) (bin_x s)
                 y0 (y1 - 1) (bin_y s) outdir),
                 Saver (length (log s)) saver_start_acquisition]))
        \<and> ((\<forall>l c. raises E l c = None) \<and>
           \<not> (Camera_stream_mode s = Some Acquisition \<and> Camera_stream_saver s \<noteq> None) \<longrightarrow> r = Return ()))"
proof -
  have F: "r = Raise e \<and> s' = s" if "outdir \<notin> set (dirs s) \<and> mkdir_raises E outdir = Some e"
    using that run by (auto simp: start_acquisition_def ensure_dir_def)
  have rest: "(Camera_stream_mode s = Some Acquisition \<and> Camera_stream_saver s = Some k \<longrightarrow>
           r = Raise already_active \<and> log s' = log s \<and>
           Camera_stream_saver s' = Some k \<and> Camera_stream_mode s' = Some Acquisition)
        \<and> (Camera_stream_mode s = Some Live \<and> Camera_stream_saver s = Some k \<and>
           raises E (log s) (Saver k saver_abort_acquisition) = None \<and>
           raises E (log s @ [Saver k saver_abort_acquisition])
             (Saver k saver_join_acquisition) = None \<longrightarrow>
           prefix (log s @ [Saver k saver_abort_acquisition, Saver k saver_join_acquisition,
                            Saver k (setup_acquisition n (Camera_exp_time s) 0 x0 (x1 - 1) (bin_x s)
                 y0 (y1 - 1) (bin_y s) outdir)]) (log s') \<and>
           (r = Return () \<longrightarrow>
              log s' = log s @ [Saver k saver_abort_acquisition, Saver k saver_join_acquisition,
                                Saver k (setup_acquisition n (Camera_exp_time s) 0 x0 (x1 - 1) (bin_x s)
                 y0 (y1 - 1) (bin_y s) outdir), Saver k saver_start_acquisition] \<and>
              Camera_stream_mode s' = Some Acquisition))
        \<and> (Camera_stream_mode s = Some Live \<and> Camera_stream_saver s = Some k \<and>
           raises E (log s) (Saver k saver_abort_acquisition) = Some (RuntimeError msg) \<longrightarrow>
           prefix (log s @ [Saver k saver_abort_acquisition, Saver k (setup_acquisition n (Camera_exp_time s) 0 x0 (x1 - 1) (bin_x s)
                 y0 (y1 - 1) (bin_y s) outdir)]) (log s') \<and>
           (r = Return () \<longrightarrow>
              log s' = log s @ [Saver k saver_abort_acquisition, Saver k (setup_acquisition n (Camera_exp_time s) 0 x0 (x1 - 1) (bin_x s)
                 y0 (y1 - 1) (bin_y s) outdir),
                                Saver k saver_start_acquisition] \<and>
              Camera_stream_mode s' = Some Acquisition))
        \<and> (Camera_stream_mode s = None \<and> Camera_stream_saver s = Some k \<longrightarrow>
           (r = Return () \<longrightarrow>
              Camera_stream_mode s' = Some Acquisition \<and>
              log s' = log s @ [Saver k (setup_acquisition n (Camera_exp_time s) 0 x0 (x1 - 1) (bin_x s)
                 y0 (y1 - 1) (bin_y s) outdir), Saver k saver_start_acquisition]))
        \<and> (Camera_stream_saver s = None \<longrightarrow>
           (r = Return () \<longrightarrow>
              Camera_stream_mode s' = Some Acquisition \<and>
              Camera_stream_saver s' = Some (length (log s)) \<and>
              log s' = log s @
                [Saver (length (log s)) StreamSaver, uninit_pvcam,
                 Saver (length (log s)) (attach_camera (Camera_name s)),
                 Saver (length (log s)) (setup_acquisition n (Camera_exp_time s) 0 x0 (x1 - 1) (bin_x s)
                 y0 (y1 - 1) (bin_y s) outdir),
                 Saver (length (log s)) saver_start_acquisition]))
        \<and> ((\<forall>l c. raises E l c = None) \<and>
           \<not> (Camera_stream_mode s = Some Acquisition \<and> Camera_stream_saver s \<noteq> None) \<longrightarrow> r = Return ())"
    if dir: "outdir \<in> set (dirs s) \<or> mkdir_raises E outdir = None"
  proof -
    note e = ensure_dir_ok [OF dir]
    have A: "r = Raise already_active \<and> log s' = log s \<and>
           Camera_stream_saver s' = Some k \<and> Camera_stream_mode s' = Some Acquisition"
      if "Camera_stream_mode s = Some Acquisition \<and> Camera_stream_saver s = Some k"
      using that run roi e by (auto simp: start_acquisition_def split: if_splits)
    have B: "prefix (log s @ [Saver k saver_abort_acquisition, Saver k saver_join_acquisition,
                            Saver k (setup_acquisition n (Camera_exp_time s) 0 x0 (x1 - 1) (bin_x s)
                 y0 (y1 - 1) (bin_y s) outdir)]) (log s') \<and>
           (r = Return () \<longrightarrow>
              log s' = log s @ [Saver k saver_abort_acquisition, Saver k saver_join_acquisition,
                                Saver k (setup_acquisition n (Camera_exp_time s) 0 x0 (x1 - 1) (bin_x s)
                 y0 (y1 - 1) (bin_y s) outdir), Saver k saver_start_acquisition] \<and>
              Camera_stream_mode s' = Some Acquisition)"
      if "Camera_stream_mode s = Some Live \<and> Camera_stream_saver s = Some k \<and>
           raises E (log s) (Saver k saver_abort_acquisition) = None \<and>
           raises E (log s @ [Saver k saver_abort_acquisition])
             (Saver k saver_join_acquisition) = None"
      using that run roi e
      by (auto simp: start_acquisition_def stop_live_def abort_acquisition_def
            join_acquisition_def saver_call_def ext_call_def bin_x_def bin_y_def
            split: if_splits option.splits)
    have B2: "prefix (log s @ [Saver k saver_abort_acquisition, Saver k (setup_acquisition n (Camera_exp_time s) 0 x0 (x1 - 1) (bin_x s)
                 y0 (y1 - 1) (bin_y s) outdir)]) (log s') \<and>
           (r = Return () \<longrightarrow>
              log s' = log s @ [Saver k saver_abort_acquisition, Saver k (setup_acquisition n (Camera_exp_time s) 0 x0 (x1 - 1) (bin_x s)
                 y0 (y1 - 1) (bin_y s) outdir),
                                Saver k saver_start_acquisition] \<and>
              Camera_stream_mode s' = Some Acquisition)"
      if "Camera_stream_mode s = Some Live \<and> Camera_stream_saver s = Some k \<and>
           raises E (log s) (Saver k saver_abort_acquisition) = Some (RuntimeError msg)"
      using that run roi e
      by (auto simp: start_acquisition_def stop_live_def abort_acquisition_def
            join_acquisition_def saver_call_def ext_call_def bin_x_def bin_y_def
            split: if_splits option.splits)
    have C: "(r = Return () \<longrightarrow>
              Camera_stream_mode s' = Some Acquisition \<and>
              log s' = log s @ [Saver k (setup_acquisition n (Camera_exp_time s) 0 x0 (x1 - 1) (bin_x s)
                 y0 (y1 - 1) (bin_y s) outdir), Saver k saver_start_acquisition])"
      if "Camera_stream_mode s = None \<and> Camera_stream_saver s = Some k"
      using that run roi e
      by (auto simp: start_acquisition_def saver_call_def ext_call_def bin_x_def bin_y_def
            split: if_splits option.splits)
    have C2: "(r = Return () \<longrightarrow>
              Camera_stream_mode s' = Some Acquisition \<and>
              Camera_stream_saver s' = Some (length (log s)) \<and>
              log s' = log s @
                [Saver (length (log s)) StreamSaver, uninit_pvcam,
                 Saver (length (log s)) (attach_camera (Camera_name s)),
                 Saver (length (log s)) (setup_acquisition n (Camera_exp_time s) 0 x0 (x1 - 1) (bin_x s)
                 y0 (y1 - 1) (bin_y s) outdir),
                 Saver (length (log s)) saver_start_acquisition])"
      if "Camera_stream_saver s = None"
      using that run roi e
      by (auto simp: start_acquisition_def new_stream_saver_def saver_call_def ext_call_def
            bin_x_def bin_y_def
            split: if_splits option.splits)
    have D: "r = Return ()"
      if q: "(\<forall>l c. raises E l c = None) \<and>
           \<not> (Camera_stream_mode s = Some Acquisition \<and> Camera_stream_saver s \<noteq> None)"
    proof (cases "Camera_stream_saver s")
      case None
      with run q roi e show ?thesis
        by (auto simp: start_acquisition_def new_stream_saver_def saver_call_def ext_call_def
              split: if_splits)
    next
      case (Some j)
      with q have "Camera_stream_mode s = None \<or> Camera_stream_mode s = Some Live"
        by (cases "Camera_stream_mode s") (auto intro: stream_mode.exhaust)
      with Some run q roi e show ?thesis
        by (auto simp: start_acquisition_def stop_live_def abort_acquisition_def
              join_acquisition_def saver_call_def ext_call_def
              split: if_splits)
    qed
    from A B B2 C C2 D show ?thesis by blast
  qed
  from F rest show ?thesis by blast
qed

theorem start_acquisition_by_state_witness:
  "start_acquisition demo_env 7 ''/tmp/out'' seq_cam = (Raise already_active, seq_cam)
   \<and> fst (start_acquisition demo_env 7 ''/tmp/out'' live_cam) = Return ()
   \<and> log (snd (start_acquisition demo_env 7 ''/tmp/out'' live_cam)) =
       log live_cam @ [Saver 0 saver_abort_acquisition, Saver 0 saver_join_acquisition,
                       Saver 0 (setup_acquisition 7 0 0 0 2047 1 0 2047 1 ''/tmp/out''),
                       Saver 0 saver_start_acquisition]
   \<and> Camera_stream_mode (snd (start_acquisition demo_env 7 ''/tmp/out'' live_cam)) = Some Acquisition
   \<and> fst (start_acquisition demo_env 7 ''/tmp/out'' open_cam) = Return ()
   \<and> Camera_stream_mode (snd (start_acquisition demo_env 7 ''/tmp/out'' open_cam)) = Some Acquisition
   \<and> Camera_stream_saver (snd (start_acquisition demo_env 7 ''/tmp/out'' open_cam)) = Some 0"
proof -
  have q: "\<forall>l c. raises demo_env l c = None"
    by (simp add: demo_env_def)
  have d: "''/tmp/out'' \<in> set (dirs s) \<or> mkdir_raises demo_env ''/tmp/out'' = None"
    for s :: camera
    by (simp add: demo_env_def)
  have r1: "Camera_roi seq_cam = Some (0, 2048, 0, 2048)"
    and m1: "Camera_stream_mode seq_cam = Some Acquisition \<and> Camera_stream_saver seq_cam = Some 0"
    by (simp_all add: seq_cam_eq demo_defs geo_defs)
  have r2: "Camera_roi live_cam = Some (0, 2048, 0, 2048)"
    and m2: "Camera_stream_mode live_cam = Some Live \<and> Camera_stream_saver live_cam = Some 0"
    and b2: "bin_x live_cam = 1 \<and> bin_y live_cam = 1 \<and> Camera_exp_time live_cam = 0"
    by (simp_all add: live_cam_eq demo_defs geo_defs)
  have r3: "Camera_roi open_cam = Some (0, 2048, 0, 2048)"
    and m3: "Camera_stream_mode open_cam = None \<and> Camera_stream_saver open_cam = None"
    and l3: "log open_cam = []"
    by (simp_all add: demo_defs geo_defs)
  have p: "x = (fst x, snd x)" for x :: "unit result \<times> camera"
    by simp
  note t1 = start_acquisition_by_state [OF r1 p, where n = 7 and E = demo_env
      and outdir = "''/tmp/out''" and k = 0]
  note t2 = start_acquisition_by_state [OF r2 p, where n = 7 and E = demo_env
      and outdir = "''/tmp/out''" and k = 0]
  note t3 = start_acquisition_by_state [OF r3 p, where n = 7 and E = demo_env
      and outdir = "''/tmp/out''"]
  have s1: "snd (start_acquisition demo_env 7 ''/tmp/out'' seq_cam) = seq_cam"
    by (simp add: seq_cam_eq start_acquisition_def ensure_dir_def demo_defs geo_defs)
  from t1 m1 d have "fst (start_acquisition demo_env 7 ''/tmp/out'' seq_cam) = Raise already_active"
    by simp
  with s1 have c1: "start_acquisition demo_env 7 ''/tmp/out'' seq_cam = (Raise already_active, seq_cam)"
    by (simp add: prod_eq_iff)
  from t2 m2 q b2 d have c2: "fst (start_acquisition demo_env 7 ''/tmp/out'' live_cam) = Return ()
   \<and> log (snd (start_acquisition demo_env 7 ''/tmp/out'' live_cam)) =
       log live_cam @ [Saver 0 saver_abort_acquisition, Saver 0 saver_join_acquisition,
                       Saver 0 (setup_acquisition 7 0 0 0 2047 1 0 2047 1 ''/tmp/out''),
                       Saver 0 saver_start_acquisition]
   \<and> Camera_stream_mode (snd (start_acquisition demo_env 7 ''/tmp/out'' live_cam)) = Some Acquisition"
    by simp
  from t3 m3 q d l3 have c3: "fst (start_acquisition demo_env 7 ''/tmp/out'' open_cam) = Return ()
   \<and> Camera_stream_mode (snd (start_acquisition demo_env 7 ''/tmp/out'' open_cam)) = Some Acquisition
   \<and> Camera_stream_saver (snd (start_acquisition demo_env 7 ''/tmp/out'' open_cam)) = Some 0"
    by simp
  from c1 c2 c3 show ?thesis by simp
qed

text \<open>
  C4 as stated fails in the state that \<open>close\<close> leaves during an acquisition, the tag
  "acquisition" with no engine attached: there \<open>start_acquisition\<close> raises nothing,
  creates a second engine and starts it.
\<close>

theorem start_acquisition_counterexample:
  "Camera_stream_mode (snd (close demo_env seq_cam)) = Some Acquisition
   \<and> Camera_stream_saver (snd (close demo_env seq_cam)) = None
   \<and> fst (start_acquisition demo_env 7 ''/tmp/out'' (snd (close demo_env seq_cam))) = Return ()
   \<and> log (snd (start_acquisition demo_env 7 ''/tmp/out'' (snd (close demo_env seq_cam)))) =
       log seq_cam @
       [close_camera 0, Saver 6 StreamSaver, uninit_pvcam, Saver 6 (attach_camera ''cam0''),
        Saver 6 (setup_acquisition 7 0 0 0 2047 1 0 2047 1 ''/tmp/out''),
        Saver 6 saver_start_acquisition]"
  by (simp add: seq_cam_eq acq_defs ext_call_def demo_defs geo_defs)

text \<open>
  C5 (as amended). \<open>start_live\<close> on a camera in state "acquisition" whose engine answers
  the status query with True returns without an error: it has issued the status query
  and nothing else, and has changed nothing in the camera.
\<close>

theorem start_live_during_sequence:
  assumes "Camera_stream_mode s = Some Acquisition"
    and "Camera_stream_saver s = Some k"
    and "raises E (log s) (Saver k acquisition_status) = None"
    and "status E (log s)"
  shows "start_live E s = (Return (), s\<lparr>log := log s @ [Saver k acquisition_status]\<rparr>)"
  using assms by (simp add: start_live_def check_acquisition_def saver_call_def ext_call_def)

theorem start_live_during_sequence_witness:
  "Camera_stream_mode seq_cam = Some Acquisition
   \<and> Camera_stream_saver seq_cam = Some 0
   \<and> start_live demo_env seq_cam =
       (Return (), seq_cam\<lparr>log := log seq_cam @ [Saver 0 acquisition_status]\<rparr>)"
proof -
  have m: "Camera_stream_mode seq_cam = Some Acquisition"
    and k: "Camera_stream_saver seq_cam = Some 0"
    by (simp_all add: seq_cam_eq)
  have r: "raises demo_env (log seq_cam) (Saver 0 acquisition_status) = None"
    and a: "status demo_env (log seq_cam)"
    by (simp_all add: demo_env_def)
  from start_live_during_sequence [OF m k r a] m k show ?thesis by simp
qed

text \<open>
  C5 as stated fails: on the camera running a 100-frame acquisition, \<open>start_live\<close>
  returns normally, and the state stays "acquisition".
\<close>

theorem start_live_counterexample:
  "Camera_stream_mode seq_cam = Some Acquisition
   \<and> status demo_env (log seq_cam)
   \<and> fst (start_live demo_env seq_cam) = Return ()
   \<and> Camera_stream_mode (snd (start_live demo_env seq_cam)) = Some Acquisition
   \<and> log (snd (start_live demo_env seq_cam)) = log seq_cam @ [Saver 0 acquisition_status]"
  by (simp add: seq_cam_eq acq_defs ext_call_def demo_defs)

text \<open>
  C6 (as amended). \<open>close\<close> that returns has issued \<open>pvc.close_camera\<close> and no other call,
  so neither abort nor join; it has set the handle to -1, the open flag to False and
  the engine reference to None, and has left every other attribute, the state tag of
  the session among them, as it was.
\<close>

theorem close_effect:
  assumes "close E s = (Return u, s')"
  shows "s' = s\<lparr>log := log s @ [close_camera (Camera_handle s)], Camera_handle := - 1,
                 Camera_is_open := False, Camera_stream_saver := None\<rparr>
         \<and> Camera_stream_mode s' = Camera_stream_mode s"
  using assms by (auto simp: close_def ext_call_def split: option.splits)

theorem close_effect_witness:
  "close demo_env seq_cam =
     (Return (), seq_cam\<lparr>log := log seq_cam @ [close_camera 0], Camera_handle := - 1,
                          Camera_is_open := False, Camera_stream_saver := None\<rparr>)
   \<and> Camera_stream_mode (snd (close demo_env seq_cam)) = Some Acquisition"
proof -
  have h: "close demo_env seq_cam = (Return (), snd (close demo_env seq_cam))"
    by (simp add: close_def ext_call_def demo_env_def)
  have c: "Camera_handle seq_cam = 0 \<and> Camera_stream_mode seq_cam = Some Acquisition"
    by (simp add: seq_cam_eq demo_defs)
  from close_effect [OF h] h c show ?thesis by simp
qed

text \<open>
  C6 as stated fails: closing the camera during a live session returns with the state
  still "live", and the only call issued is \<open>close_camera\<close>.
\<close>

theorem close_counterexample:
  "Camera_stream_mode live_cam = Some Live
   \<and> fst (close demo_env live_cam) = Return ()
   \<and> Camera_stream_mode (snd (close demo_env live_cam)) = Some Live
   \<and> log (snd (close demo_env live_cam)) = log live_cam @ [close_camera 0]"
  by (simp add: live_cam_eq close_def ext_call_def demo_defs)


section \<open>The variable-exposure sequence\<close>

lemmas vtm_defs = get_vtm_sequence_def exp_res_setter_def vtm_exp_time_setter_def set_next_def
  vtm_next_def vtm_get_frame_def sleep_interval_def set_param_def ext_call_def in_range_def
  in_values_def get_param_def bin_x_def bin_y_def






lemma set_next_calls:
  assumes "set_next E t s = (x, s1)"
  shows "\<exists>new c. s1 = s\<lparr>log := log s @ new, pvc_cur := c\<rparr> \<and>
           c PARAM_EXP_RES = pvc_cur s PARAM_EXP_RES \<and> list_all is_frame_call new"
proof (cases t)
  case Nil
  with assms have "s1 = s\<lparr>log := log s @ [], pvc_cur := pvc_cur s\<rparr>"
    by (simp add: set_next_def)
  then show ?thesis by (intro exI [of _ "[]"] exI [of _ "pvc_cur s"]) simp
next
  case (Cons v t')
  let ?c = "set_param_call (Camera_handle s) PARAM_EXP_TIME v"
  from assms Cons have
    "s1 = s \<or> s1 = s\<lparr>log := log s @ [?c]\<rparr>
     \<or> s1 = s\<lparr>log := log s @ [?c], pvc_cur := (pvc_cur s)(PARAM_EXP_TIME := Return v)\<rparr>"
    by (auto simp: set_next_def vtm_exp_time_setter_def set_param_def ext_call_def
             split: if_splits option.splits)
  then consider (a) "s1 = s\<lparr>log := log s @ [], pvc_cur := pvc_cur s\<rparr>"
    | (b) "s1 = s\<lparr>log := log s @ [?c], pvc_cur := pvc_cur s\<rparr>"
    | (c) "s1 = s\<lparr>log := log s @ [?c], pvc_cur := (pvc_cur s)(PARAM_EXP_TIME := Return v)\<rparr>"
    by auto
  then show ?thesis
  proof cases
    case a
    then show ?thesis by (intro exI [of _ "[]"] exI [of _ "pvc_cur s"]) simp
  next
    case b
    then show ?thesis
      by (intro exI [of _ "[?c]"] exI [of _ "pvc_cur s"]) (simp add: is_frame_call_def)
  next
    case c
    then show ?thesis
      by (intro exI [of _ "[?c]"] exI [of _ "(pvc_cur s)(PARAM_EXP_TIME := Return v)"])
         (simp add: is_frame_call_def)
  qed
qed

lemma calls_trans:
  assumes "s1 = s\<lparr>log := log s @ new, pvc_cur := c\<rparr>"
    and "c PARAM_EXP_RES = pvc_cur s PARAM_EXP_RES" and "list_all is_frame_call new"
    and "s2 = s1\<lparr>log := log s1 @ new', pvc_cur := c'\<rparr>"
    and "c' PARAM_EXP_RES = pvc_cur s1 PARAM_EXP_RES" and "list_all is_frame_call new'"
  shows "\<exists>new c. s2 = s\<lparr>log := log s @ new, pvc_cur := c\<rparr> \<and>
           c PARAM_EXP_RES = pvc_cur s PARAM_EXP_RES \<and> list_all is_frame_call new"
  using assms by (intro exI [of _ "new @ new'"] exI [of _ c']) simp

lemma vtm_next_calls:
  assumes "vtm_next E time_list t s = (x, s1)"
  shows "\<exists>new c. s1 = s\<lparr>log := log s @ new, pvc_cur := c\<rparr> \<and>
           c PARAM_EXP_RES = pvc_cur s PARAM_EXP_RES \<and> list_all is_frame_call new"
proof (cases "set_next E t s")
  case (Pair y sa)
  from set_next_calls [OF Pair] obtain new c where
    a: "sa = s\<lparr>log := log s @ new, pvc_cur := c\<rparr>" "c PARAM_EXP_RES = pvc_cur s PARAM_EXP_RES"
       "list_all is_frame_call new" by blast
  show ?thesis
  proof (cases y)
    case (Return t')
    with assms Pair have "s1 = sa" by (simp add: vtm_next_def)
    with a show ?thesis by blast
  next
    case (Raise e)
    with assms Pair have "set_next E time_list sa = (x, s1)" by (simp add: vtm_next_def)
    from set_next_calls [OF this] obtain new' c' where
      b: "s1 = sa\<lparr>log := log sa @ new', pvc_cur := c'\<rparr>"
         "c' PARAM_EXP_RES = pvc_cur sa PARAM_EXP_RES" "list_all is_frame_call new'" by blast
    from calls_trans [OF a b] show ?thesis .
  qed
qed

lemma vtm_get_frame_calls:
  assumes "vtm_get_frame E r s = (x, s1)"
  shows "\<exists>new c. s1 = s\<lparr>log := log s @ new, pvc_cur := c\<rparr> \<and>
           c PARAM_EXP_RES = pvc_cur s PARAM_EXP_RES \<and> list_all is_frame_call new"
proof -
  obtain x0 x1 y0 y1 where r: "r = (x0, x1, y0, y1)" by (cases r) auto
  let ?g = "get_frame_call (Camera_handle s) x0 (x1 - 1) (bin_x s)
                   y0 (y1 - 1) (bin_y s) (Camera_exp_time s) (Camera_mode s)"
  from assms r have "s1 = s\<lparr>log := log s @ [?g], pvc_cur := pvc_cur s\<rparr>"
    by (auto simp: vtm_get_frame_def ext_call_def split: option.splits)
  then show ?thesis
    by (intro exI [of _ "[?g]"] exI [of _ "pvc_cur s"]) (simp add: is_frame_call_def)
qed

lemma vtm_loop_calls:
  "vtm_loop E time_list r interval n t stack s = (res, s') \<Longrightarrow>
   \<exists>new c. s' = s\<lparr>log := log s @ new, pvc_cur := c\<rparr> \<and>
      c PARAM_EXP_RES = pvc_cur s PARAM_EXP_RES \<and> list_all is_frame_call new"
proof (induction n arbitrary: t stack s)
  case 0
  then have "s' = s\<lparr>log := log s @ [], pvc_cur := pvc_cur s\<rparr>" by simp
  then show ?case by (intro exI [of _ "[]"] exI [of _ "pvc_cur s"]) simp
next
  case (Suc n)
  obtain x s1 where nx: "vtm_next E time_list t s = (x, s1)" by (cases "vtm_next E time_list t s")
  note a = vtm_next_calls [OF nx]
  show ?case
  proof (cases x)
    case (Raise e)
    with Suc.prems nx have "s' = s1" by simp
    with a show ?thesis by simp
  next
    case (Return t1)
    obtain y s2 where gf: "vtm_get_frame E r s1 = (y, s2)" by (cases "vtm_get_frame E r s1")
    from a obtain new c where a': "s1 = s\<lparr>log := log s @ new, pvc_cur := c\<rparr>"
      "c PARAM_EXP_RES = pvc_cur s PARAM_EXP_RES" "list_all is_frame_call new" by blast
    from vtm_get_frame_calls [OF gf] obtain new' c' where
      b': "s2 = s1\<lparr>log := log s1 @ new', pvc_cur := c'\<rparr>"
      "c' PARAM_EXP_RES = pvc_cur s1 PARAM_EXP_RES" "list_all is_frame_call new'" by blast
    note ab = calls_trans [OF a' b']
    show ?thesis
    proof (cases y)
      case (Raise e)
      with Suc.prems nx Return gf have "s' = s2" by simp
      with ab show ?thesis by simp
    next
      case f: (Return f)
      show ?thesis
      proof (cases "sleep_interval interval")
        case (Raise e)
        with Suc.prems nx Return gf f have "s' = s2" by simp
        with ab show ?thesis by simp
      next
        case u: (Return u)
        with Suc.prems nx Return gf f
        have "vtm_loop E time_list r interval n t1 (stack @ [f]) s2 = (res, s')" by simp
        from Suc.IH [OF this] obtain new2 c2 where
          c': "s' = s2\<lparr>log := log s2 @ new2, pvc_cur := c2\<rparr>"
          "c2 PARAM_EXP_RES = pvc_cur s2 PARAM_EXP_RES" "list_all is_frame_call new2" by blast
        from ab obtain new1 c1 where ab': "s2 = s\<lparr>log := log s @ new1, pvc_cur := c1\<rparr>"
          "c1 PARAM_EXP_RES = pvc_cur s PARAM_EXP_RES" "list_all is_frame_call new1" by blast
        from calls_trans [OF ab' c'] show ?thesis .
      qed
    qed
  qed
qed


lemma exp_res_setter_Return:
  assumes "exp_res_setter E val s = (Return u, s1)"
  shows "\<exists>v. (case val of PStr k \<Rightarrow> map_of (exp_resolutions E) k = Some v | _ \<Rightarrow> val = PInt v) \<and>
           raises E (log s) (set_param_call (Camera_handle s) PARAM_EXP_RES v) = None \<and>
           s1 = s\<lparr>log := log s @ [set_param_call (Camera_handle s) PARAM_EXP_RES v],
                   pvc_cur := (pvc_cur s)(PARAM_EXP_RES := Return v)\<rparr>"
  using assms
  by (cases val)
     (auto simp: exp_res_setter_def set_param_def ext_call_def in_values_def
           split: option.splits if_splits)





lemma demo_run_fst:
  "fst (get_vtm_sequence demo_env [10, 20, 30] (PInt 1) 7 None open_cam)
     = Return [2, 4, 6, 8, 10, 12, 14]"
  by (simp add: vtm_defs demo_defs geo_defs numeral_eq_Suc)

lemma demo_run_log:
  "log (snd (get_vtm_sequence demo_env [10, 20, 30] (PInt 1) 7 None open_cam)) =
     [set_param_call 0 PARAM_EXP_RES 1,
      set_param_call 0 PARAM_EXP_TIME 10, get_frame_call 0 0 2047 1 0 2047 1 0 (Some 1792),
      set_param_call 0 PARAM_EXP_TIME 20, get_frame_call 0 0 2047 1 0 2047 1 0 (Some 1792),
      set_param_call 0 PARAM_EXP_TIME 30, get_frame_call 0 0 2047 1 0 2047 1 0 (Some 1792),
      set_param_call 0 PARAM_EXP_TIME 10, get_frame_call 0 0 2047 1 0 2047 1 0 (Some 1792),
      set_param_call 0 PARAM_EXP_TIME 20, get_frame_call 0 0 2047 1 0 2047 1 0 (Some 1792),
      set_param_call 0 PARAM_EXP_TIME 30, get_frame_call 0 0 2047 1 0 2047 1 0 (Some 1792),
      set_param_call 0 PARAM_EXP_TIME 10, get_frame_call 0 0 2047 1 0 2047 1 0 (Some 1792),
      set_param_call 0 PARAM_EXP_RES 0]"
  by (simp add: vtm_defs demo_defs geo_defs numeral_eq_Suc)


text \<open>
  C7 (as amended). When \<open>get_vtm_sequence\<close> returns, the first call it issued wrote the
  requested resolution (the value of the name, or the value itself) to PARAM_EXP_RES,
  the last call it issued wrote back the resolution read before that, nothing in
  between wrote the resolution (only exposure times and captures), and the driver's
  current resolution is the prior one again.
\<close>

theorem vtm_resolution_restored:
  assumes run: "get_vtm_sequence E time_list exp_res num_frames interval s = (Return st, s')"
  shows "\<exists>old v mid.
           get_param PARAM_EXP_RES s = Return old \<and>
           (case exp_res of
              PStr k \<Rightarrow> map_of (exp_resolutions E) k = Some v
            | _ \<Rightarrow> exp_res = PInt v) \<and>
           log s' = log s @ [set_param_call (Camera_handle s) PARAM_EXP_RES v] @ mid @
                      [set_param_call (Camera_handle s) PARAM_EXP_RES old] \<and>
           list_all is_frame_call mid \<and>
           get_param PARAM_EXP_RES s' = Return old"
proof -
  from run obtain r old s1 sw sh s2 where
    old: "get_param PARAM_EXP_RES s = Return old"
    and set1: "exp_res_setter E exp_res s = (Return (), s1)"
    and loop: "vtm_loop E time_list r interval (nat num_frames) time_list [] s1 = (Return st, s2)"
    and set2: "exp_res_setter E (PInt old) s2 = (Return (), s')"
    by (auto simp: get_vtm_sequence_def
             split: if_splits option.splits result.splits prod.splits)
  from exp_res_setter_Return [OF set1] obtain v where
    v: "case exp_res of PStr k \<Rightarrow> map_of (exp_resolutions E) k = Some v | _ \<Rightarrow> exp_res = PInt v"
    and s1: "s1 = s\<lparr>log := log s @ [set_param_call (Camera_handle s) PARAM_EXP_RES v],
                   pvc_cur := (pvc_cur s)(PARAM_EXP_RES := Return v)\<rparr>"
    by blast
  from vtm_loop_calls [OF loop] obtain mid c where
    s2: "s2 = s1\<lparr>log := log s1 @ mid, pvc_cur := c\<rparr>"
    and mid: "list_all is_frame_call mid" by blast
  from exp_res_setter_Return [OF set2] have
    s': "s' = s2\<lparr>log := log s2 @ [set_param_call (Camera_handle s2) PARAM_EXP_RES old],
                   pvc_cur := (pvc_cur s2)(PARAM_EXP_RES := Return old)\<rparr>"
    by auto
  have l: "log s' = log s @ [set_param_call (Camera_handle s) PARAM_EXP_RES v] @ mid @
                      [set_param_call (Camera_handle s) PARAM_EXP_RES old]"
    by (simp add: s' s2 s1)
  have g: "get_param PARAM_EXP_RES s' = Return old"
    by (simp add: s' get_param_def)
  from old v l mid g show ?thesis by blast
qed


theorem vtm_resolution_restored_witness:
  "fst (get_vtm_sequence demo_env [10, 20, 30] (PInt 1) 7 None open_cam)
     = Return [2, 4, 6, 8, 10, 12, 14]
   \<and> get_param PARAM_EXP_RES open_cam = Return 0
   \<and> get_param PARAM_EXP_RES (snd (get_vtm_sequence demo_env [10, 20, 30] (PInt 1) 7 None open_cam))
       = Return 0
   \<and> hd (log (snd (get_vtm_sequence demo_env [10, 20, 30] (PInt 1) 7 None open_cam)))
       = set_param_call 0 PARAM_EXP_RES 1
   \<and> last (log (snd (get_vtm_sequence demo_env [10, 20, 30] (PInt 1) 7 None open_cam)))
       = set_param_call 0 PARAM_EXP_RES 0"
proof -
  have run: "get_vtm_sequence demo_env [10, 20, 30] (PInt 1) 7 None open_cam =
          (Return [2, 4, 6, 8, 10, 12, 14],
           snd (get_vtm_sequence demo_env [10, 20, 30] (PInt 1) 7 None open_cam))"
    using demo_run_fst by (simp add: prod_eq_iff)
  have o: "get_param PARAM_EXP_RES open_cam = Return 0"
    by (simp add: demo_defs geo_defs)
  from vtm_resolution_restored [OF run] o
  have "get_param PARAM_EXP_RES
          (snd (get_vtm_sequence demo_env [10, 20, 30] (PInt 1) 7 None open_cam)) = Return 0"
    by auto
  with demo_run_fst demo_run_log o show ?thesis by simp
qed


text \<open>
  C7 as stated fails when a capture fails midway: with the second capture raising, the
  call raises after writing the resolution 1, and the prior resolution 0 is not
  written back.
\<close>

theorem vtm_resolution_counterexample:
  "fst (get_vtm_sequence fail_env [10, 20, 30] (PInt 1) 7 None open_cam)
     = Raise (RuntimeError ''capture failed'')
   \<and> log (snd (get_vtm_sequence fail_env [10, 20, 30] (PInt 1) 7 None open_cam)) =
     [set_param_call 0 PARAM_EXP_RES 1,
      set_param_call 0 PARAM_EXP_TIME 10, get_frame_call 0 0 2047 1 0 2047 1 0 (Some 1792),
      set_param_call 0 PARAM_EXP_TIME 20, get_frame_call 0 0 2047 1 0 2047 1 0 (Some 1792)]
   \<and> get_param PARAM_EXP_RES open_cam = Return 0
   \<and> get_param PARAM_EXP_RES (snd (get_vtm_sequence fail_env [10, 20, 30] (PInt 1) 7 None open_cam))
       = Return 1"
  by (simp add: vtm_defs demo_defs geo_defs fail_env_def numeral_eq_Suc)








end
